theory Spec2Isabelle
  imports Main "HOL-Library.Char_ord"
begin

section \<open>The Anthropic client of langchaingo: transport, request builder, error decoder\<close>

text \<open>
  A shallow embedding of \<^verbatim>\<open>llms/anthropic/internal/anthropicclient/anthropicclient.go\<close>
  and of \<^verbatim>\<open>llms.LLMError\<close>. Go strings and byte slices are \<^typ>\<open>string\<close> (lists of
  8-bit characters), Go's \<^verbatim>\<open>int\<close> is \<^typ>\<open>int\<close> (no arithmetic is done on it), a Go
  \<^verbatim>\<open>error\<close> is a value of \<open>go_error\<close>, and a nil pointer or nil interface is \<open>None\<close>.
  Receivers and request arguments are the structs themselves, that is, non-nil pointers.
\<close>

subsection \<open>Errors\<close>

text \<open>\<^verbatim>\<open>llms.LLMError\<close>, the structured error handed to callers.\<close>

record LLMError =
  Message :: string
  ErrorMessage :: string
  StatusCode :: int
  ErrorType :: string
  RawResponse :: string

text \<open>
  The dynamic types an \<^verbatim>\<open>error\<close> takes in this package: the result of
  \<^verbatim>\<open>errors.New\<close>, the result of \<^verbatim>\<open>fmt.Errorf\<close> with a \<^verbatim>\<open>%w\<close> verb (its text and
  the error it wraps), and a pointer to an \<^verbatim>\<open>LLMError\<close>.
\<close>

datatype go_error =
  errorString string
| wrapError string go_error
| LLMError_ptr LLMError

text \<open>The \<^verbatim>\<open>Error()\<close> method; for \<^verbatim>\<open>*LLMError\<close> it returns the field \<^verbatim>\<open>Message\<close>.\<close>

fun Error :: "go_error \<Rightarrow> string" where
  "Error (errorString s) = s"
| "Error (wrapError s _) = s"
| "Error (LLMError_ptr e) = Message e"

text \<open>\<^verbatim>\<open>fmt.Errorf(prefix + ": %w", err)\<close>.\<close>

definition Errorf_w :: "string \<Rightarrow> go_error \<Rightarrow> go_error" where
  "Errorf_w prefix err = wrapError (prefix @ '': '' @ Error err) err"

text \<open>
  What a Go call leaves behind: a returned value, a returned error, or a run-time panic
  (here only the nil-interface method call \<^verbatim>\<open>c.httpClient.Do\<close>).
\<close>

datatype 'a outcome = Value 'a | Failure go_error | Panic

subsection \<open>HTTP requests, responses and headers\<close>

text \<open>
  \<^verbatim>\<open>textproto.CanonicalMIMEHeaderKey\<close>, which \<^verbatim>\<open>Header.Set\<close> and \<^verbatim>\<open>Header.Get\<close>
  apply to the key: a key made of header-token bytes only has the first letter and every
  letter after a hyphen in upper case and the other letters in lower case; any other key is
  left as it is.
\<close>

definition validHeaderFieldByte :: "char \<Rightarrow> bool" where
  "validHeaderFieldByte c \<longleftrightarrow>
     (CHR ''a'' \<le> c \<and> c \<le> CHR ''z'') \<or> (CHR ''A'' \<le> c \<and> c \<le> CHR ''Z'') \<or>
     (CHR ''0'' \<le> c \<and> c \<le> CHR ''9'') \<or> c \<in> set ''!#$%&*+-.^_`|~'' \<or> c = CHR 0x27"

definition toUpper :: "char \<Rightarrow> char" where
  "toUpper c =
     (case map_of (zip ''abcdefghijklmnopqrstuvwxyz'' ''ABCDEFGHIJKLMNOPQRSTUVWXYZ'') c of
        Some u \<Rightarrow> u | None \<Rightarrow> c)"

definition toLower :: "char \<Rightarrow> char" where
  "toLower c =
     (case map_of (zip ''ABCDEFGHIJKLMNOPQRSTUVWXYZ'' ''abcdefghijklmnopqrstuvwxyz'') c of
        Some l \<Rightarrow> l | None \<Rightarrow> c)"

fun canonicalMIMEHeaderKey :: "bool \<Rightarrow> string \<Rightarrow> string" where
  "canonicalMIMEHeaderKey upper [] = []"
| "canonicalMIMEHeaderKey upper (c # cs) =
     (let c' = (if upper then toUpper c else toLower c)
      in c' # canonicalMIMEHeaderKey (c' = CHR ''-'') cs)"

definition CanonicalMIMEHeaderKey :: "string \<Rightarrow> string" where
  "CanonicalMIMEHeaderKey s =
     (if list_all validHeaderFieldByte s then canonicalMIMEHeaderKey True s else s)"

text \<open>\<^verbatim>\<open>http.Header\<close> is a \<^verbatim>\<open>map[string][]string\<close>.\<close>

type_synonym Header = "string \<rightharpoonup> string list"

definition Header_Set :: "Header \<Rightarrow> string \<Rightarrow> string \<Rightarrow> Header" where
  "Header_Set h key v = h(CanonicalMIMEHeaderKey key \<mapsto> [v])"

definition Header_Get :: "Header \<Rightarrow> string \<Rightarrow> string" where
  "Header_Get h key =
     (case h (CanonicalMIMEHeaderKey key) of
        None \<Rightarrow> ''''
      | Some [] \<Rightarrow> ''''
      | Some (v # _) \<Rightarrow> v)"

text \<open>
  A \<^verbatim>\<open>context.Context\<close>; this file only hands it on. A nil context is \<open>None\<close>.
\<close>

datatype Context = Background | TODO | Derived Context

text \<open>
  The parts of an \<^verbatim>\<open>*http.Request\<close> this client determines: the context, the method, the
  URL string handed to \<^verbatim>\<open>http.NewRequestWithContext\<close>, the header and the body bytes.
\<close>

record Request =
  Request_ctx :: Context
  Request_Method :: string
  Request_URL :: string
  Request_Header :: Header
  Request_Body :: string

text \<open>
  The parts of an \<^verbatim>\<open>*http.Response\<close> this file reads: the status code, and the body as
  \<^verbatim>\<open>io.ReadAll\<close> sees it: the bytes it delivers and the read error, if any, that ends them.
\<close>

record Response =
  Response_StatusCode :: int
  Response_Body :: "string \<times> go_error option"

definition ReadAll :: "string \<times> go_error option \<Rightarrow> string \<times> go_error option" where
  "ReadAll body = body"

text \<open>
  \<^verbatim>\<open>Doer\<close>, the injected transport. Its \<^verbatim>\<open>Do\<close> method is a function of the requests it
  has served so far and of the request at hand; calling it appends the request to that log,
  so the log records every invocation.
\<close>

type_synonym Doer = "Request list \<Rightarrow> Request \<Rightarrow> go_error + Response"

subsection \<open>The client and its construction\<close>

definition DefaultBaseURL :: string where
  "DefaultBaseURL = ''https://api.anthropic.com/v1''"

definition DefaultAnthropicVersion :: string where
  "DefaultAnthropicVersion = ''2023-06-01''"

definition defaultModel :: string where
  "defaultModel = ''claude-1.3''"

record Client =
  token :: string
  Model :: string
  baseURL :: string
  vertexProjectID :: string
  vertexLocation :: string
  httpClient :: "Doer option"
  anthropicVersion :: string
  UseLegacyTextCompletionsAPI :: bool

text \<open>\<^verbatim>\<open>type Option func(*Client) error\<close>: the client it leaves, or the error it returns.\<close>

type_synonym Option = "Client \<Rightarrow> go_error + Client"

definition WithVertexProjectID :: "string \<Rightarrow> Option" where
  "WithVertexProjectID projectID = (\<lambda>c. Inr (c\<lparr>vertexProjectID := projectID\<rparr>))"

definition WithVertexLocation :: "string \<Rightarrow> Option" where
  "WithVertexLocation location = (\<lambda>c. Inr (c\<lparr>vertexLocation := location\<rparr>))"

definition WithAnthropicVersion :: "string \<Rightarrow> Option" where
  "WithAnthropicVersion version = (\<lambda>c. Inr (c\<lparr>anthropicVersion := version\<rparr>))"

definition WithHTTPClient :: "Doer option \<Rightarrow> Option" where
  "WithHTTPClient client = (\<lambda>c. Inr (c\<lparr>httpClient := client\<rparr>))"

definition WithLegacyTextCompletionsAPI :: "bool \<Rightarrow> Option" where
  "WithLegacyTextCompletionsAPI val = (\<lambda>c. Inr (c\<lparr>UseLegacyTextCompletionsAPI := val\<rparr>))"

text \<open>\<^verbatim>\<open>strings.TrimSuffix\<close>.\<close>

definition TrimSuffix :: "string \<Rightarrow> string \<Rightarrow> string" where
  "TrimSuffix s suffix =
     (if length suffix \<le> length s \<and> drop (length s - length suffix) s = suffix
      then take (length s - length suffix) s else s)"

fun apply_opts :: "Client \<Rightarrow> Option list \<Rightarrow> go_error + Client" where
  "apply_opts c [] = Inr c"
| "apply_opts c (opt # opts) =
     (case opt c of Inl err \<Rightarrow> Inl err | Inr c' \<Rightarrow> apply_opts c' opts)"

definition New :: "string \<Rightarrow> string \<Rightarrow> string \<Rightarrow> Option list \<Rightarrow> go_error + Client" where
  "New tok model base opts =
     apply_opts \<lparr>token = tok, Model = model, baseURL = TrimSuffix base ''/'',
                 vertexProjectID = '''', vertexLocation = '''', httpClient = None,
                 anthropicVersion = '''', UseLegacyTextCompletionsAPI = False\<rparr> opts"

subsection \<open>Headers and dispatch\<close>

definition setHeaders :: "Client \<Rightarrow> Request \<Rightarrow> Request" where
  "setHeaders c req =
     (let h1 = Header_Set (Request_Header req) ''Content-Type'' ''application/json'';
          h2 = (if vertexProjectID c \<noteq> ''''
                then Header_Set h1 ''Authorization'' (''Bearer '' @ token c)
                else Header_Set h1 ''x-api-key'' (token c));
          h3 = (if anthropicVersion c \<noteq> ''''
                then Header_Set h2 ''anthropic-version'' (anthropicVersion c)
                else if vertexProjectID c \<noteq> ''''
                then Header_Set h2 ''anthropic-version'' ''vertex-2023-10-16''
                else Header_Set h2 ''anthropic-version'' ''2023-06-01'')
      in req\<lparr>Request_Header := h3\<rparr>)"

text \<open>
  \<^verbatim>\<open>http.NewRequestWithContext(ctx, http.MethodPost, url, bytes.NewReader(payloadBytes))\<close>.
  The method is valid, so the call fails on a nil context and when \<^verbatim>\<open>url.Parse\<close> rejects
  the URL string; \<open>url_Parse\<close> stands for that library function and gives the error it
  reports, if any. The new request has an empty header.
\<close>

definition NewRequestWithContext ::
  "(string \<Rightarrow> go_error option) \<Rightarrow> Context option \<Rightarrow> string \<Rightarrow> string \<Rightarrow> string
     \<Rightarrow> go_error + Request" where
  "NewRequestWithContext url_Parse ctx method url body =
     (case ctx of
        None \<Rightarrow> Inl (errorString ''net/http: nil Context'')
      | Some cx \<Rightarrow>
          (case url_Parse url of
             Some err \<Rightarrow> Inl err
           | None \<Rightarrow> Inr \<lparr>Request_ctx = cx, Request_Method = method, Request_URL = url,
                          Request_Header = Map.empty, Request_Body = body\<rparr>))"

text \<open>
  Lines 250 to 262 of \<^verbatim>\<open>do\<close>: the lazy default of \<^verbatim>\<open>c.baseURL\<close> and the URL string. The
  \<^verbatim>\<open>%s\<close> verbs of \<^verbatim>\<open>fmt.Sprintf\<close> insert their string arguments unchanged.
\<close>

definition do_baseURL :: "Client \<Rightarrow> Client" where
  "do_baseURL c =
     (if vertexProjectID c = '''' then
        (if baseURL c = '''' then c\<lparr>baseURL := DefaultBaseURL\<rparr> else c)
      else c)"

definition do_url :: "Client \<Rightarrow> string \<Rightarrow> string" where
  "do_url c path =
     (if vertexProjectID c = '''' then baseURL (do_baseURL c) @ path
      else ''https://'' @ vertexLocation c @ ''-aiplatform.googleapis.'' @
           ''com/v1/projects/'' @ vertexProjectID c @ ''/locations/'' @ vertexLocation c @
           ''/publishers/anthropic/models/'' @ Model c @ '':streamRawPredict'')"

text \<open>
  \<^verbatim>\<open>do\<close> returns its outcome together with the client as the call leaves it (the receiver
  is a pointer) and the transport's log.
\<close>

definition do ::
  "(string \<Rightarrow> go_error option) \<Rightarrow> Client \<Rightarrow> Request list \<Rightarrow> Context option \<Rightarrow> string \<Rightarrow> string
     \<Rightarrow> Response outcome \<times> Client \<times> Request list" where
  "do url_Parse c sent ctx path payloadBytes =
     (let url = do_url c path; c' = do_baseURL c
      in case NewRequestWithContext url_Parse ctx ''POST'' url payloadBytes of
           Inl err \<Rightarrow> (Failure (Errorf_w ''create request'' err), c', sent)
         | Inr req0 \<Rightarrow>
             (let req = setHeaders c' req0
              in case httpClient c' of
                   None \<Rightarrow> (Panic, c', sent)
                 | Some doer \<Rightarrow>
                     (case doer sent req of
                        Inl err \<Rightarrow> (Failure (Errorf_w ''send request'' err), c', sent @ [req])
                      | Inr resp \<Rightarrow> (Value resp, c', sent @ [req]))))"

text \<open>A sequence of calls to \<^verbatim>\<open>do\<close> on the same client, one after the other.\<close>

fun do_calls ::
  "(string \<Rightarrow> go_error option) \<Rightarrow> Client \<Rightarrow> Request list
     \<Rightarrow> (Context option \<times> string \<times> string) list \<Rightarrow> Client \<times> Request list" where
  "do_calls url_Parse c sent [] = (c, sent)"
| "do_calls url_Parse c sent ((ctx, path, payloadBytes) # calls) =
     (case do url_Parse c sent ctx path payloadBytes of
        (_, c', sent') \<Rightarrow> do_calls url_Parse c' sent' calls)"

subsection \<open>The request builder\<close>

text \<open>
  \<^verbatim>\<open>llms.FunctionDefinition\<close> and \<^verbatim>\<open>llms.Tool\<close> are declared outside these sources; the
  fields are the ones this file reads. \<^verbatim>\<open>Parameters\<close> is an \<^verbatim>\<open>any\<close> that is passed on
  unread, so its type is left open; \<^verbatim>\<open>Function\<close> is a pointer.
\<close>

record 's FunctionDefinition =
  FunctionDefinition_Name :: string
  FunctionDefinition_Description :: string
  FunctionDefinition_Parameters :: 's

record 's llms_Tool =
  llms_Tool_Type :: string
  llms_Tool_Function :: "'s FunctionDefinition option"

text \<open>
  The wire shapes \<^verbatim>\<open>Tool\<close> and \<^verbatim>\<open>ToolChoice\<close> of this package, with the fields the struct
  literals of \<^verbatim>\<open>handleTools\<close> and \<^verbatim>\<open>handleToolChoice\<close> fill; an unset field is the empty
  string.
\<close>

record 's Tool =
  Tool_Name :: string
  Tool_Description :: string
  Tool_InputSchema :: 's

record ToolChoice =
  ToolChoice_Type :: string
  ToolChoice_Name :: string

text \<open>
  The dynamic types of the \<^verbatim>\<open>any\<close> in \<^verbatim>\<open>MessageRequest.ToolChoice\<close>: the nil interface, a
  \<^verbatim>\<open>string\<close>, an \<^verbatim>\<open>llms.Tool\<close> value, a pointer \<^verbatim>\<open>*llms.Tool\<close> (nil or not), and a value
  of any other type, given by the name of its type.
\<close>

datatype 's any =
  any_nil
| any_string string
| any_Tool "'s llms_Tool"
| any_Tool_ptr "'s llms_Tool option"
| any_other string

text \<open>\<^verbatim>\<open>handleToolChoice\<close> returns a pointer, which may be nil, or an error.\<close>

fun handleToolChoice :: "'s any \<Rightarrow> go_error + ToolChoice option" where
  "handleToolChoice (any_string s) =
     Inr (Some \<lparr>ToolChoice_Type = s, ToolChoice_Name = ''''\<rparr>)"
| "handleToolChoice (any_Tool t) =
     (case llms_Tool_Function t of
        None \<Rightarrow> Inl (errorString ''tool choice function is nil'')
      | Some f \<Rightarrow>
          Inr (Some \<lparr>ToolChoice_Type = llms_Tool_Type t,
                     ToolChoice_Name = FunctionDefinition_Name f\<rparr>))"
| "handleToolChoice _ = Inr None"

text \<open>The loop of \<^verbatim>\<open>handleTools\<close>, with \<^verbatim>\<open>resultTools\<close> as accumulator.\<close>

fun handleTools_loop :: "'s Tool list \<Rightarrow> 's llms_Tool list \<Rightarrow> go_error + 's Tool list" where
  "handleTools_loop resultTools [] = Inr resultTools"
| "handleTools_loop resultTools (tool # tools) =
     (case llms_Tool_Function tool of
        None \<Rightarrow> Inl (errorString ''tool choice function is nil'')
      | Some f \<Rightarrow>
          handleTools_loop
            (resultTools @ [\<lparr>Tool_Name = FunctionDefinition_Name f,
                             Tool_Description = FunctionDefinition_Description f,
                             Tool_InputSchema = FunctionDefinition_Parameters f\<rparr>])
            tools)"

definition handleTools :: "'s llms_Tool list \<Rightarrow> go_error + 's Tool list" where
  "handleTools tools = handleTools_loop [] tools"

text \<open>
  \<^verbatim>\<open>MessageRequest\<close>. \<^verbatim>\<open>ChatMessage\<close> (type \<open>'m\<close>) is declared outside these sources and
  \<^verbatim>\<open>float64\<close> values (type \<open>'f\<close>) are only copied, so both types are left open.
\<close>

type_synonym StreamingFunc = "(Context \<Rightarrow> string \<Rightarrow> go_error option) option"

record ('m, 'f, 's) MessageRequest =
  MessageRequest_Model :: string
  MessageRequest_Messages :: "'m list"
  MessageRequest_System :: string
  MessageRequest_Temperature :: 'f
  MessageRequest_MaxTokens :: int
  MessageRequest_TopP :: 'f
  MessageRequest_TopK :: int
  MessageRequest_Tools :: "'s llms_Tool list"
  MessageRequest_ToolChoice :: "'s any"
  MessageRequest_StopWords :: "string list"
  MessageRequest_Stream :: bool
  MessageRequest_StreamingFunc :: StreamingFunc

text \<open>
  \<^verbatim>\<open>messagePayload\<close> is declared outside these sources; the fields are the ones the struct
  literal in \<^verbatim>\<open>CreateMessage\<close> fills, with the types of the expressions assigned to them.
\<close>

record ('m, 'f, 's) messagePayload =
  messagePayload_Model :: string
  messagePayload_Messages :: "'m list"
  messagePayload_System :: string
  messagePayload_Temperature :: 'f
  messagePayload_MaxTokens :: int
  messagePayload_StopWords :: "string list"
  messagePayload_TopP :: 'f
  messagePayload_Stream :: bool
  messagePayload_StreamingFunc :: StreamingFunc
  messagePayload_TopK :: int
  messagePayload_Tools :: "'s Tool list"
  messagePayload_ToolChoice :: "ToolChoice option"

text \<open>
  The method \<^verbatim>\<open>createMessage\<close> is defined outside these sources, so \<^verbatim>\<open>CreateMessage\<close>
  takes it as a parameter: from the client, the transport's log, the context and the payload
  to its outcome (\<open>Failure\<close> when it returns an error), the client and the log it leaves.
\<close>

type_synonym ('m, 'f, 's, 'r) createMessage =
  "Client \<Rightarrow> Request list \<Rightarrow> Context option \<Rightarrow> ('m, 'f, 's) messagePayload
     \<Rightarrow> 'r outcome \<times> Client \<times> Request list"

definition payload_of ::
  "('m, 'f, 's) MessageRequest \<Rightarrow> 's Tool list \<Rightarrow> ToolChoice option
     \<Rightarrow> ('m, 'f, 's) messagePayload" where
  "payload_of r tools toolChoice =
     \<lparr>messagePayload_Model = MessageRequest_Model r,
      messagePayload_Messages = MessageRequest_Messages r,
      messagePayload_System = MessageRequest_System r,
      messagePayload_Temperature = MessageRequest_Temperature r,
      messagePayload_MaxTokens = MessageRequest_MaxTokens r,
      messagePayload_StopWords = MessageRequest_StopWords r,
      messagePayload_TopP = MessageRequest_TopP r,
      messagePayload_Stream = MessageRequest_Stream r,
      messagePayload_StreamingFunc = MessageRequest_StreamingFunc r,
      messagePayload_TopK = MessageRequest_TopK r,
      messagePayload_Tools = tools,
      messagePayload_ToolChoice = toolChoice\<rparr>"

definition CreateMessage ::
  "('m, 'f, 's, 'r) createMessage \<Rightarrow> Client \<Rightarrow> Request list \<Rightarrow> Context option
     \<Rightarrow> ('m, 'f, 's) MessageRequest \<Rightarrow> 'r outcome \<times> Client \<times> Request list" where
  "CreateMessage createMessage c sent ctx r =
     (case handleToolChoice (MessageRequest_ToolChoice r) of
        Inl err \<Rightarrow> (Failure err, c, sent)
      | Inr toolChoice \<Rightarrow>
          (case handleTools (MessageRequest_Tools r) of
             Inl err \<Rightarrow> (Failure err, c, sent)
           | Inr tools \<Rightarrow>
               (case createMessage c sent ctx (payload_of r tools toolChoice) of
                  (Failure err, c', sent') \<Rightarrow> (Failure err, c', sent')
                | (Value resp, c', sent') \<Rightarrow> (Value resp, c', sent')
                | (Panic, c', sent') \<Rightarrow> (Panic, c', sent'))))"

subsection \<open>Decoding JSON: \<^verbatim>\<open>encoding/json\<close> as \<^verbatim>\<open>decodeError\<close> uses it\<close>

text \<open>
  \<^verbatim>\<open>json.Unmarshal\<close> belongs to Go's standard library. It is modelled here for the one
  target type this file decodes into, \<^verbatim>\<open>errorMessage\<close>: the bytes are scanned by the
  library's state machine (\<^verbatim>\<open>scanner.go\<close>), which accepts exactly the JSON texts, and the
  value read is stored into the struct by the rules of \<^verbatim>\<open>decode.go\<close>.
\<close>

datatype json =
  JNull
| JBool bool
| JNumber string
| JString string
| JArray "json list"
| JObject "(string \<times> json) list"

definition isSpace :: "char \<Rightarrow> bool" where
  "isSpace c \<longleftrightarrow> c = CHR '' '' \<or> c = CHR 0x09 \<or> c = CHR 0x0D \<or> c = CHR 0x0A"

definition isDigit :: "char \<Rightarrow> bool" where
  "isDigit c \<longleftrightarrow> CHR ''0'' \<le> c \<and> c \<le> CHR ''9''"

definition isHex :: "char \<Rightarrow> bool" where
  "isHex c \<longleftrightarrow>
     isDigit c \<or> (CHR ''a'' \<le> c \<and> c \<le> CHR ''f'') \<or> (CHR ''A'' \<le> c \<and> c \<le> CHR ''F'')"

definition hexval :: "char \<Rightarrow> nat" where
  "hexval c =
     (case map_of (zip ''0123456789abcdefABCDEF''
                       [0, 1, 2, 3, 4, 5, 6, 7, 8, 9, 10, 11, 12, 13, 14, 15,
                        10, 11, 12, 13, 14, 15]) c of
        Some v \<Rightarrow> v | None \<Rightarrow> 0)"

text \<open>
  \<^verbatim>\<open>getu4\<close>: the code unit of a four-digit \<^verbatim>\<open>u\<close> escape at the head of the bytes, if there is
  one. The backslash is the byte 0x5C and the double quote the byte 0x22.
\<close>

definition getu4 :: "string \<Rightarrow> nat option" where
  "getu4 s =
     (case s of
        b # u # h1 # h2 # h3 # h4 # _ \<Rightarrow>
          if b = CHR 0x5C \<and> u = CHR ''u'' \<and> isHex h1 \<and> isHex h2 \<and> isHex h3 \<and> isHex h4
          then Some (((hexval h1 * 16 + hexval h2) * 16 + hexval h3) * 16 + hexval h4)
          else None
      | _ \<Rightarrow> None)"

text \<open>The UTF-8 encoding of U+FFFD, which stands in for whatever is not a valid rune.\<close>

definition RuneError :: string where
  "RuneError = [CHR 0xEF, CHR 0xBF, CHR 0xBD]"

text \<open>\<^verbatim>\<open>utf8.EncodeRune\<close>, \<^verbatim>\<open>utf16.IsSurrogate\<close> and \<^verbatim>\<open>utf16.DecodeRune\<close>.\<close>

definition EncodeRune :: "nat \<Rightarrow> string" where
  "EncodeRune r =
     (if r < 0x80 then [char_of r]
      else if r < 0x800 then [char_of (0xC0 + r div 64), char_of (0x80 + r mod 64)]
      else if (0xD800 \<le> r \<and> r < 0xE000) \<or> 0x10FFFF < r then RuneError
      else if r < 0x10000 then
        [char_of (0xE0 + r div 4096), char_of (0x80 + r div 64 mod 64), char_of (0x80 + r mod 64)]
      else
        [char_of (0xF0 + r div 262144), char_of (0x80 + r div 4096 mod 64),
         char_of (0x80 + r div 64 mod 64), char_of (0x80 + r mod 64)])"

definition IsSurrogate :: "nat \<Rightarrow> bool" where
  "IsSurrogate r \<longleftrightarrow> 0xD800 \<le> r \<and> r < 0xE000"

definition utf16_DecodeRune :: "nat \<Rightarrow> nat \<Rightarrow> nat option" where
  "utf16_DecodeRune r1 r2 =
     (if 0xD800 \<le> r1 \<and> r1 < 0xDC00 \<and> 0xDC00 \<le> r2 \<and> r2 < 0xE000
      then Some ((r1 - 0xD800) * 1024 + (r2 - 0xDC00) + 0x10000) else None)"

text \<open>
  \<^verbatim>\<open>utf8.DecodeRune\<close>, as far as the decoder needs it: the number of bytes of the valid
  encoding at the head of the bytes, or 0 when there is none. \<open>utf8_head\<close> is the table of
  first bytes: the length of the encoding and the range of its second byte.
\<close>

definition inRange :: "char \<Rightarrow> char \<Rightarrow> char \<Rightarrow> bool" where
  "inRange lo hi c \<longleftrightarrow> lo \<le> c \<and> c \<le> hi"

definition utf8_head :: "char \<Rightarrow> (nat \<times> char \<times> char) option" where
  "utf8_head p0 =
     (if inRange (CHR 0xC2) (CHR 0xDF) p0 then Some (2, CHR 0x80, CHR 0xBF)
      else if p0 = CHR 0xE0 then Some (3, CHR 0xA0, CHR 0xBF)
      else if p0 = CHR 0xED then Some (3, CHR 0x80, CHR 0x9F)
      else if inRange (CHR 0xE1) (CHR 0xEF) p0 then Some (3, CHR 0x80, CHR 0xBF)
      else if p0 = CHR 0xF0 then Some (4, CHR 0x90, CHR 0xBF)
      else if inRange (CHR 0xF1) (CHR 0xF3) p0 then Some (4, CHR 0x80, CHR 0xBF)
      else if p0 = CHR 0xF4 then Some (4, CHR 0x80, CHR 0x8F)
      else None)"

definition utf8_size :: "string \<Rightarrow> nat" where
  "utf8_size p =
     (case p of
        [] \<Rightarrow> 0
      | p0 # rest \<Rightarrow>
          (case utf8_head p0 of
             None \<Rightarrow> 0
           | Some (sz, lo, hi) \<Rightarrow>
               if length p < sz then 0
               else if \<not> inRange lo hi (p ! 1) then 0
               else if sz \<le> 2 then 2
               else if \<not> inRange (CHR 0x80) (CHR 0xBF) (p ! 2) then 0
               else if sz \<le> 3 then 3
               else if \<not> inRange (CHR 0x80) (CHR 0xBF) (p ! 3) then 0
               else 4))"

text \<open>
  \<^verbatim>\<open>unquoteBytes\<close>, on the bytes between the quotes of a string literal: escapes are
  replaced by what they denote, a surrogate pair of \<^verbatim>\<open>u\<close> escapes becomes one rune, and a
  lone surrogate or a byte that starts no valid UTF-8 encoding becomes U+FFFD.
\<close>

definition unescape :: "char \<Rightarrow> char option" where
  "unescape e =
     (if e = CHR 0x22 \<or> e = CHR 0x5C \<or> e = CHR ''/'' \<or> e = CHR 0x27 then Some e
      else if e = CHR ''b'' then Some (CHR 0x08)
      else if e = CHR ''f'' then Some (CHR 0x0C)
      else if e = CHR ''n'' then Some (CHR 0x0A)
      else if e = CHR ''r'' then Some (CHR 0x0D)
      else if e = CHR ''t'' then Some (CHR 0x09)
      else None)"

fun unquote_loop :: "string \<Rightarrow> string \<Rightarrow> string option" where
  "unquote_loop b [] = Some b"
| "unquote_loop b (c # cs) =
     (if c = CHR 0x5C then
        (case cs of
           [] \<Rightarrow> None
         | e # es \<Rightarrow>
             if e = CHR ''u'' then
               (case getu4 (c # cs) of
                  None \<Rightarrow> None
                | Some rr \<Rightarrow>
                    if IsSurrogate rr then
                      (case getu4 (drop 5 cs) of
                         None \<Rightarrow> unquote_loop (b @ RuneError) (drop 5 cs)
                       | Some rr1 \<Rightarrow>
                           (case utf16_DecodeRune rr rr1 of
                              None \<Rightarrow> unquote_loop (b @ RuneError) (drop 5 cs)
                            | Some dec \<Rightarrow> unquote_loop (b @ EncodeRune dec) (drop 11 cs)))
                    else unquote_loop (b @ EncodeRune rr) (drop 5 cs))
             else
               (case unescape e of
                  None \<Rightarrow> None
                | Some x \<Rightarrow> unquote_loop (b @ [x]) es))
      else if c = CHR 0x22 \<or> c < CHR 0x20 then None
      else if c < CHR 0x80 then unquote_loop (b @ [c]) cs
      else
        (let size = utf8_size (c # cs)
         in if size = 0 then unquote_loop (b @ RuneError) cs
            else unquote_loop (b @ take size (c # cs)) (drop (size - 1) cs)))"

definition unquote :: "string \<Rightarrow> string option" where
  "unquote s = unquote_loop [] s"

text \<open>
  The scanner. Its \<^verbatim>\<open>parseState\<close> stack says which composite values are open; here each
  entry also holds what has been read of that value: the members of an object (latest first)
  and the key waiting for its value, or the elements of an array (latest first). \<open>item\<close>
  holds the bytes of the string or number being read and \<open>decoded\<close> the finished top-level
  value. The steps carry the names of the library's step functions.
\<close>

datatype parseState =
  parseObjectKey "(string \<times> json) list" "string option"
| parseObjectValue "(string \<times> json) list" "string option"
| parseArrayValue "json list"

datatype step =
  stateBeginValueOrEmpty | stateBeginValue | stateBeginStringOrEmpty | stateBeginString
| stateEndValue | stateEndTop
| stateInString | stateInStringEsc
| stateInStringEscU | stateInStringEscU1 | stateInStringEscU12 | stateInStringEscU123
| stateNeg | state1 | state0 | stateDot | stateDot0 | stateE | stateESign | stateE0
| stateT | stateTr | stateTru | stateF | stateFa | stateFal | stateFals
| stateN | stateNu | stateNul

record scanner =
  step :: step
  parseState :: "parseState list"
  item :: string
  decoded :: "json option"

definition maxNestingDepth :: nat where
  "maxNestingDepth = 10000"

text \<open>
  A finished value goes to the innermost open composite value: as the key of an object,
  as the value of the waiting key, as the next element of an array, or, when nothing is
  open, as the top-level value. In every step \<open>None\<close> is the scanner's error.
\<close>

definition deliver :: "json \<Rightarrow> scanner \<Rightarrow> scanner option" where
  "deliver v s =
     (case parseState s of
        [] \<Rightarrow> Some (s\<lparr>decoded := Some v\<rparr>)
      | parseObjectKey ms None # st \<Rightarrow>
          (case v of
             JString k \<Rightarrow> Some (s\<lparr>parseState := parseObjectKey ms (Some k) # st\<rparr>)
           | _ \<Rightarrow> None)
      | parseObjectKey ms (Some k) # st \<Rightarrow> None
      | parseObjectValue ms None # st \<Rightarrow> None
      | parseObjectValue ms (Some k) # st \<Rightarrow>
          Some (s\<lparr>parseState := parseObjectValue ((k, v) # ms) None # st\<rparr>)
      | parseArrayValue vs # st \<Rightarrow> Some (s\<lparr>parseState := parseArrayValue (v # vs) # st\<rparr>))"

definition pushParseState :: "parseState \<Rightarrow> step \<Rightarrow> scanner \<Rightarrow> scanner option" where
  "pushParseState newParseState successState s =
     (if length (parseState s) + 1 \<le> maxNestingDepth
      then Some (s\<lparr>parseState := newParseState # parseState s, step := successState\<rparr>)
      else None)"

definition popParseState :: "json \<Rightarrow> scanner \<Rightarrow> scanner option" where
  "popParseState v s =
     (let st = tl (parseState s)
      in deliver v (s\<lparr>parseState := st,
                      step := (if st = [] then stateEndTop else stateEndValue)\<rparr>))"

definition stateEndTop_f :: "scanner \<Rightarrow> char \<Rightarrow> scanner option" where
  "stateEndTop_f s c = (if \<not> isSpace c then None else Some s)"

definition stateEndValue_f :: "scanner \<Rightarrow> char \<Rightarrow> scanner option" where
  "stateEndValue_f s c =
     (case parseState s of
        [] \<Rightarrow> stateEndTop_f (s\<lparr>step := stateEndTop\<rparr>) c
      | ps # st \<Rightarrow>
          if isSpace c then Some (s\<lparr>step := stateEndValue\<rparr>)
          else
            (case ps of
               parseObjectKey ms k \<Rightarrow>
                 if c = CHR '':''
                 then Some (s\<lparr>parseState := parseObjectValue ms k # st, step := stateBeginValue\<rparr>)
                 else None
             | parseObjectValue ms k \<Rightarrow>
                 if c = CHR '',''
                 then Some (s\<lparr>parseState := parseObjectKey ms None # st, step := stateBeginString\<rparr>)
                 else if c = CHR ''}'' then popParseState (JObject (rev ms)) s
                 else None
             | parseArrayValue vs \<Rightarrow>
                 if c = CHR '','' then Some (s\<lparr>step := stateBeginValue\<rparr>)
                 else if c = CHR '']'' then popParseState (JArray (rev vs)) s
                 else None))"

definition endLiteral :: "json \<Rightarrow> scanner \<Rightarrow> scanner option" where
  "endLiteral v s = deliver v (s\<lparr>step := stateEndValue, item := []\<rparr>)"

text \<open>A number ends at the first byte that cannot continue it; that byte then ends a value.\<close>

definition endNumber :: "scanner \<Rightarrow> char \<Rightarrow> scanner option" where
  "endNumber s c =
     (case deliver (JNumber (item s)) (s\<lparr>item := []\<rparr>) of
        None \<Rightarrow> None
      | Some s' \<Rightarrow> stateEndValue_f s' c)"

definition continue :: "step \<Rightarrow> char \<Rightarrow> scanner \<Rightarrow> scanner option" where
  "continue next c s = Some (s\<lparr>step := next, item := item s @ [c]\<rparr>)"

definition stateBeginValue_f :: "scanner \<Rightarrow> char \<Rightarrow> scanner option" where
  "stateBeginValue_f s c =
     (if isSpace c then Some s
      else if c = CHR ''{'' then pushParseState (parseObjectKey [] None) stateBeginStringOrEmpty s
      else if c = CHR ''['' then pushParseState (parseArrayValue []) stateBeginValueOrEmpty s
      else if c = CHR 0x22 then Some (s\<lparr>step := stateInString, item := []\<rparr>)
      else if c = CHR ''-'' then Some (s\<lparr>step := stateNeg, item := [c]\<rparr>)
      else if c = CHR ''0'' then Some (s\<lparr>step := state0, item := [c]\<rparr>)
      else if c = CHR ''t'' then Some (s\<lparr>step := stateT\<rparr>)
      else if c = CHR ''f'' then Some (s\<lparr>step := stateF\<rparr>)
      else if c = CHR ''n'' then Some (s\<lparr>step := stateN\<rparr>)
      else if CHR ''1'' \<le> c \<and> c \<le> CHR ''9'' then Some (s\<lparr>step := state1, item := [c]\<rparr>)
      else None)"

definition stateBeginValueOrEmpty_f :: "scanner \<Rightarrow> char \<Rightarrow> scanner option" where
  "stateBeginValueOrEmpty_f s c =
     (if isSpace c then Some s
      else if c = CHR '']'' then stateEndValue_f s c
      else stateBeginValue_f s c)"

definition stateBeginString_f :: "scanner \<Rightarrow> char \<Rightarrow> scanner option" where
  "stateBeginString_f s c =
     (if isSpace c then Some s
      else if c = CHR 0x22 then Some (s\<lparr>step := stateInString, item := []\<rparr>)
      else None)"

definition stateBeginStringOrEmpty_f :: "scanner \<Rightarrow> char \<Rightarrow> scanner option" where
  "stateBeginStringOrEmpty_f s c =
     (if isSpace c then Some s
      else if c = CHR ''}'' then
        (case parseState s of
           parseObjectKey ms k # st \<Rightarrow>
             stateEndValue_f (s\<lparr>parseState := parseObjectValue ms k # st\<rparr>) c
         | _ \<Rightarrow> None)
      else stateBeginString_f s c)"

definition stateInString_f :: "scanner \<Rightarrow> char \<Rightarrow> scanner option" where
  "stateInString_f s c =
     (if c = CHR 0x22 then
        (case unquote (item s) of
           None \<Rightarrow> None
         | Some str \<Rightarrow> endLiteral (JString str) s)
      else if c = CHR 0x5C then continue stateInStringEsc c s
      else if c < CHR 0x20 then None
      else continue stateInString c s)"

definition stateInStringEsc_f :: "scanner \<Rightarrow> char \<Rightarrow> scanner option" where
  "stateInStringEsc_f s c =
     (if c \<in> set ''bfnrt/'' \<or> c = CHR 0x5C \<or> c = CHR 0x22 then continue stateInString c s
      else if c = CHR ''u'' then continue stateInStringEscU c s
      else None)"

definition stateHex :: "step \<Rightarrow> scanner \<Rightarrow> char \<Rightarrow> scanner option" where
  "stateHex next s c = (if isHex c then continue next c s else None)"

definition stateNeg_f :: "scanner \<Rightarrow> char \<Rightarrow> scanner option" where
  "stateNeg_f s c =
     (if c = CHR ''0'' then continue state0 c s
      else if CHR ''1'' \<le> c \<and> c \<le> CHR ''9'' then continue state1 c s
      else None)"

definition state0_f :: "scanner \<Rightarrow> char \<Rightarrow> scanner option" where
  "state0_f s c =
     (if c = CHR ''.'' then continue stateDot c s
      else if c = CHR ''e'' \<or> c = CHR ''E'' then continue stateE c s
      else endNumber s c)"

definition state1_f :: "scanner \<Rightarrow> char \<Rightarrow> scanner option" where
  "state1_f s c = (if isDigit c then continue state1 c s else state0_f s c)"

definition stateDot_f :: "scanner \<Rightarrow> char \<Rightarrow> scanner option" where
  "stateDot_f s c = (if isDigit c then continue stateDot0 c s else None)"

definition stateDot0_f :: "scanner \<Rightarrow> char \<Rightarrow> scanner option" where
  "stateDot0_f s c =
     (if isDigit c then continue stateDot0 c s
      else if c = CHR ''e'' \<or> c = CHR ''E'' then continue stateE c s
      else endNumber s c)"

definition stateESign_f :: "scanner \<Rightarrow> char \<Rightarrow> scanner option" where
  "stateESign_f s c = (if isDigit c then continue stateE0 c s else None)"

definition stateE_f :: "scanner \<Rightarrow> char \<Rightarrow> scanner option" where
  "stateE_f s c =
     (if c = CHR ''+'' \<or> c = CHR ''-'' then continue stateESign c s else stateESign_f s c)"

definition stateE0_f :: "scanner \<Rightarrow> char \<Rightarrow> scanner option" where
  "stateE0_f s c = (if isDigit c then continue stateE0 c s else endNumber s c)"

text \<open>The steps through the literals \<^verbatim>\<open>true\<close>, \<^verbatim>\<open>false\<close> and \<^verbatim>\<open>null\<close>.\<close>

definition stateLit :: "char \<Rightarrow> step \<Rightarrow> scanner \<Rightarrow> char \<Rightarrow> scanner option" where
  "stateLit expected next s c = (if c = expected then Some (s\<lparr>step := next\<rparr>) else None)"

definition stateLitEnd :: "char \<Rightarrow> json \<Rightarrow> scanner \<Rightarrow> char \<Rightarrow> scanner option" where
  "stateLitEnd expected v s c = (if c = expected then endLiteral v s else None)"

definition scan_step :: "scanner \<Rightarrow> char \<Rightarrow> scanner option" where
  "scan_step s c =
     (case step s of
        stateBeginValueOrEmpty \<Rightarrow> stateBeginValueOrEmpty_f s c
      | stateBeginValue \<Rightarrow> stateBeginValue_f s c
      | stateBeginStringOrEmpty \<Rightarrow> stateBeginStringOrEmpty_f s c
      | stateBeginString \<Rightarrow> stateBeginString_f s c
      | stateEndValue \<Rightarrow> stateEndValue_f s c
      | stateEndTop \<Rightarrow> stateEndTop_f s c
      | stateInString \<Rightarrow> stateInString_f s c
      | stateInStringEsc \<Rightarrow> stateInStringEsc_f s c
      | stateInStringEscU \<Rightarrow> stateHex stateInStringEscU1 s c
      | stateInStringEscU1 \<Rightarrow> stateHex stateInStringEscU12 s c
      | stateInStringEscU12 \<Rightarrow> stateHex stateInStringEscU123 s c
      | stateInStringEscU123 \<Rightarrow> stateHex stateInString s c
      | stateNeg \<Rightarrow> stateNeg_f s c
      | state1 \<Rightarrow> state1_f s c
      | state0 \<Rightarrow> state0_f s c
      | stateDot \<Rightarrow> stateDot_f s c
      | stateDot0 \<Rightarrow> stateDot0_f s c
      | stateE \<Rightarrow> stateE_f s c
      | stateESign \<Rightarrow> stateESign_f s c
      | stateE0 \<Rightarrow> stateE0_f s c
      | stateT \<Rightarrow> stateLit (CHR ''r'') stateTr s c
      | stateTr \<Rightarrow> stateLit (CHR ''u'') stateTru s c
      | stateTru \<Rightarrow> stateLitEnd (CHR ''e'') (JBool True) s c
      | stateF \<Rightarrow> stateLit (CHR ''a'') stateFa s c
      | stateFa \<Rightarrow> stateLit (CHR ''l'') stateFal s c
      | stateFal \<Rightarrow> stateLit (CHR ''s'') stateFals s c
      | stateFals \<Rightarrow> stateLitEnd (CHR ''e'') (JBool False) s c
      | stateN \<Rightarrow> stateLit (CHR ''u'') stateNu s c
      | stateNu \<Rightarrow> stateLit (CHR ''l'') stateNul s c
      | stateNul \<Rightarrow> stateLitEnd (CHR ''l'') JNull s c)"

fun scan_bytes :: "scanner \<Rightarrow> string \<Rightarrow> scanner option" where
  "scan_bytes s [] = Some s"
| "scan_bytes s (c # data) =
     (case scan_step s c of None \<Rightarrow> None | Some s' \<Rightarrow> scan_bytes s' data)"

definition scan_reset :: scanner where
  "scan_reset = \<lparr>step = stateBeginValue, parseState = [], item = [], decoded = None\<rparr>"

text \<open>At the end of the input a space is fed to the scanner, which ends a top-level number.\<close>

definition scan_eof :: "scanner \<Rightarrow> json option" where
  "scan_eof s =
     (if step s = stateEndTop then decoded s
      else
        (case scan_step s (CHR '' '') of
           None \<Rightarrow> None
         | Some s' \<Rightarrow> if step s' = stateEndTop then decoded s' else None))"

text \<open>
  \<^verbatim>\<open>checkValid\<close>: \<open>None\<close> when the bytes are not a JSON text (the library's
  \<^verbatim>\<open>SyntaxError\<close>), and otherwise the value they denote.
\<close>

definition checkValid :: "string \<Rightarrow> json option" where
  "checkValid data =
     (case scan_bytes scan_reset data of None \<Rightarrow> None | Some s \<Rightarrow> scan_eof s)"

text \<open>
  Storing a value into a struct. A key selects the field whose name it equals, or else
  equals when case is ignored; besides the ASCII letters, U+017F folds to \<^verbatim>\<open>S\<close> and U+212A
  to \<^verbatim>\<open>K\<close>. A key that selects no field is skipped. \<^verbatim>\<open>null\<close> leaves a field as it is, a
  value of the wrong kind is an \<^verbatim>\<open>UnmarshalTypeError\<close>, the first of which is saved and
  returned once the whole value has been stored.
\<close>

fun foldName :: "string \<Rightarrow> string" where
  "foldName [] = []"
| "foldName (c # cs) =
     (if c < CHR 0x80 then toUpper c # foldName cs
      else if c = CHR 0xC5 \<and> take 1 cs = [CHR 0xBF] then CHR ''S'' # foldName (drop 1 cs)
      else if c = CHR 0xE2 \<and> take 2 cs = [CHR 0x84, CHR 0xAA] then CHR ''K'' # foldName (drop 2 cs)
      else c # foldName cs)"

definition selects :: "string \<Rightarrow> string \<Rightarrow> bool" where
  "selects key name \<longleftrightarrow> key = name \<or> foldName key = foldName name"

datatype json_error = SyntaxError | UnmarshalTypeError string

definition kind :: "json \<Rightarrow> string" where
  "kind v =
     (case v of
        JNull \<Rightarrow> ''null'' | JBool _ \<Rightarrow> ''bool'' | JNumber _ \<Rightarrow> ''number''
      | JString _ \<Rightarrow> ''string'' | JArray _ \<Rightarrow> ''array'' | JObject _ \<Rightarrow> ''object'')"

definition saveError :: "json_error \<Rightarrow> json_error option \<Rightarrow> json_error option" where
  "saveError err savedError = (case savedError of None \<Rightarrow> Some err | Some e \<Rightarrow> Some e)"

text \<open>The struct \<^verbatim>\<open>errorMessage\<close> and the anonymous struct of its field \<^verbatim>\<open>Error\<close>.\<close>

record errorMessage_Error =
  Error_Message :: string
  Error_Type :: string

record errorMessage =
  errorMessage_Error :: errorMessage_Error

definition store_string :: "json \<Rightarrow> string \<times> json_error option \<Rightarrow> string \<times> json_error option" where
  "store_string v d =
     (case v of
        JString s \<Rightarrow> (s, snd d)
      | JNull \<Rightarrow> d
      | _ \<Rightarrow> (fst d, saveError (UnmarshalTypeError (kind v)) (snd d)))"

fun object_Error ::
  "(string \<times> json) list \<Rightarrow> errorMessage_Error \<times> json_error option
     \<Rightarrow> errorMessage_Error \<times> json_error option" where
  "object_Error [] d = d"
| "object_Error ((key, v) # members) (e, savedError) =
     object_Error members
       (if selects key ''message'' then
          (case store_string v (Error_Message e, savedError) of
             (s, savedError') \<Rightarrow> (e\<lparr>Error_Message := s\<rparr>, savedError'))
        else if selects key ''type'' then
          (case store_string v (Error_Type e, savedError) of
             (s, savedError') \<Rightarrow> (e\<lparr>Error_Type := s\<rparr>, savedError'))
        else (e, savedError))"

definition value_Error ::
  "json \<Rightarrow> errorMessage_Error \<times> json_error option \<Rightarrow> errorMessage_Error \<times> json_error option" where
  "value_Error v d =
     (case v of
        JObject members \<Rightarrow> object_Error members d
      | JNull \<Rightarrow> d
      | _ \<Rightarrow> (fst d, saveError (UnmarshalTypeError (kind v)) (snd d)))"

fun object_errorMessage ::
  "(string \<times> json) list \<Rightarrow> errorMessage \<times> json_error option
     \<Rightarrow> errorMessage \<times> json_error option" where
  "object_errorMessage [] d = d"
| "object_errorMessage ((key, v) # members) (m, savedError) =
     object_errorMessage members
       (if selects key ''error'' then
          (case value_Error v (errorMessage_Error m, savedError) of
             (e, savedError') \<Rightarrow> (m\<lparr>errorMessage_Error := e\<rparr>, savedError'))
        else (m, savedError))"

definition value_errorMessage ::
  "json \<Rightarrow> errorMessage \<times> json_error option \<Rightarrow> errorMessage \<times> json_error option" where
  "value_errorMessage v d =
     (case v of
        JObject members \<Rightarrow> object_errorMessage members d
      | JNull \<Rightarrow> d
      | _ \<Rightarrow> (fst d, saveError (UnmarshalTypeError (kind v)) (snd d)))"

text \<open>
  \<^verbatim>\<open>json.Unmarshal(respBody, &errResp)\<close> with \<^verbatim>\<open>errResp\<close> the zero value: the error it
  returns, or else the struct it leaves.
\<close>

definition Unmarshal :: "string \<Rightarrow> json_error + errorMessage" where
  "Unmarshal data =
     (case checkValid data of
        None \<Rightarrow> Inl SyntaxError
      | Some v \<Rightarrow>
          (case value_errorMessage v
                  (\<lparr>errorMessage_Error = \<lparr>Error_Message = '''', Error_Type = ''''\<rparr>\<rparr>, None) of
             (errResp, None) \<Rightarrow> Inr errResp
           | (errResp, Some err) \<Rightarrow> Inl err))"

subsection \<open>The error decoder\<close>

text \<open>The verb \<^verbatim>\<open>%d\<close> of \<^verbatim>\<open>fmt.Sprintf\<close> on an \<^verbatim>\<open>int\<close>: its decimal digits, after a minus sign if it is negative.\<close>

fun digits :: "nat \<Rightarrow> string" where
  "digits n =
     (if n < 10 then [''0123456789'' ! n]
      else digits (n div 10) @ [''0123456789'' ! (n mod 10)])"

definition Sprintf_d :: "int \<Rightarrow> string" where
  "Sprintf_d i = (if i < 0 then CHR ''-'' # digits (nat (- i)) else digits (nat i))"

definition decodeError :: "Client \<Rightarrow> Response \<Rightarrow> go_error" where
  "decodeError c resp =
     (let msg = ''API returned unexpected status code: '' @ Sprintf_d (Response_StatusCode resp)
      in case ReadAll (Response_Body resp) of
           (respBody, Some err) \<Rightarrow> Errorf_w msg err
         | (respBody, None) \<Rightarrow>
             (case Unmarshal respBody of
                Inl err \<Rightarrow> errorString msg
              | Inr errResp \<Rightarrow>
                  LLMError_ptr
                    \<lparr>Message = msg @ '': '' @ Error_Message (errorMessage_Error errResp),
                     ErrorMessage = Error_Message (errorMessage_Error errResp),
                     StatusCode = Response_StatusCode resp,
                     ErrorType = Error_Type (errorMessage_Error errResp),
                     RawResponse = respBody\<rparr>))"

subsection \<open>Comparing requests, and example inputs\<close>

text \<open>A request without its \<^verbatim>\<open>Anthropic-Version\<close> header entry.\<close>

definition drop_version :: "Request \<Rightarrow> Request" where
  "drop_version req =
     req\<lparr>Request_Header := (Request_Header req)(''Anthropic-Version'' := None)\<rparr>"

text \<open>
  Concrete inputs on which the theorems below are run. \<open>quoted\<close> puts a text between
  double quotes (the byte 0x22); the three bodies are the rate-limit envelope, an
  authentication envelope with its members in another order and one more member, and a
  gateway's HTML page.
\<close>

definition quoted :: "string \<Rightarrow> string" where
  "quoted s = CHR 0x22 # s @ [CHR 0x22]"

definition rate_limit_body :: string where
  "rate_limit_body =
     ''{'' @ quoted ''error'' @ '':{'' @ quoted ''message'' @ '':'' @ quoted ''rate limited'' @
     '','' @ quoted ''type'' @ '':'' @ quoted ''rate_limit_error'' @ ''}}''"

definition authentication_body :: string where
  "authentication_body =
     ''{'' @ quoted ''type'' @ '':'' @ quoted ''error'' @ '','' @ quoted ''error'' @ '':{'' @
     quoted ''type'' @ '':'' @ quoted ''authentication_error'' @ '','' @
     quoted ''message'' @ '':'' @ quoted ''invalid x-api-key'' @ ''}}''"

definition gateway_body :: string where
  "gateway_body = ''<html>502 Bad Gateway</html>''"

text \<open>
  A \<^verbatim>\<open>url.Parse\<close> that accepts every URL, a transport that answers every request with
  status 200 and an empty JSON object, a client in direct mode as \<^verbatim>\<open>New\<close> builds it from
  an empty base URL, and a client in Vertex mode.
\<close>

definition accept_url :: "string \<Rightarrow> go_error option" where
  "accept_url url = None"

definition ok_Doer :: Doer where
  "ok_Doer sent req = Inr \<lparr>Response_StatusCode = 200, Response_Body = (''{}'', None)\<rparr>"

definition direct_Client :: Client where
  "direct_Client =
     \<lparr>token = ''sk-ant-key'', Model = ''claude-3-haiku-20240307'', baseURL = '''',
      vertexProjectID = '''', vertexLocation = '''', httpClient = Some ok_Doer,
      anthropicVersion = '''', UseLegacyTextCompletionsAPI = False\<rparr>"

definition vertex_Client :: Client where
  "vertex_Client =
     \<lparr>token = ''ya29.token'', Model = ''claude-3-haiku@20240307'',
      baseURL = ''https://api.anthropic.com/v1'',
      vertexProjectID = ''my-project'', vertexLocation = ''us-central1'',
      httpClient = Some ok_Doer,
      anthropicVersion = '''', UseLegacyTextCompletionsAPI = False\<rparr>"

text \<open>
  A tool with a function definition and one without, a message request (messages and
  floats written as texts), and a \<^verbatim>\<open>createMessage\<close> that posts the payload's model name
  through \<^verbatim>\<open>do\<close> and returns the body of the response.
\<close>

definition weather_Function :: "string FunctionDefinition" where
  "weather_Function =
     \<lparr>FunctionDefinition_Name = ''get_weather'',
      FunctionDefinition_Description = ''Current weather in a city'',
      FunctionDefinition_Parameters = ''{}''\<rparr>"

definition weather_Tool :: "string llms_Tool" where
  "weather_Tool = \<lparr>llms_Tool_Type = ''function'', llms_Tool_Function = Some weather_Function\<rparr>"

definition empty_Tool :: "string llms_Tool" where
  "empty_Tool = \<lparr>llms_Tool_Type = ''function'', llms_Tool_Function = None\<rparr>"

definition example_Request :: "(string, string, string) MessageRequest" where
  "example_Request =
     \<lparr>MessageRequest_Model = ''claude-3-haiku-20240307'',
      MessageRequest_Messages = [''Hello''],
      MessageRequest_System = '''',
      MessageRequest_Temperature = ''0.2'',
      MessageRequest_MaxTokens = 1024,
      MessageRequest_TopP = ''0.9'',
      MessageRequest_TopK = 0,
      MessageRequest_Tools = [weather_Tool],
      MessageRequest_ToolChoice = any_string ''auto'',
      MessageRequest_StopWords = [],
      MessageRequest_Stream = False,
      MessageRequest_StreamingFunc = None\<rparr>"

definition post_createMessage :: "(string, string, string, string) createMessage" where
  "post_createMessage c sent ctx payload =
     (case do accept_url c sent ctx ''/messages'' (messagePayload_Model payload) of
        (Value resp, c', sent') \<Rightarrow> (Value (fst (Response_Body resp)), c', sent')
      | (Failure err, c', sent') \<Rightarrow> (Failure err, c', sent')
      | (Panic, c', sent') \<Rightarrow> (Panic, c', sent'))"

text \<open>A request as \<^verbatim>\<open>http.NewRequestWithContext\<close> returns it, with an empty header.\<close>

definition post_Request :: Request where
  "post_Request =
     \<lparr>Request_ctx = Background, Request_Method = ''POST'',
      Request_URL = ''https://api.anthropic.com/v1/messages'',
      Request_Header = Map.empty, Request_Body = ''{}''\<rparr>"

subsection \<open>The payload on the wire\<close>

text \<open>
  \<^verbatim>\<open>json.Marshal\<close> on a struct field that is a pointer, as \<^verbatim>\<open>encoding/json\<close> documents it:
  under a tag with \<^verbatim>\<open>omitempty\<close> a nil pointer writes no member; without it a nil pointer
  writes the member with the value \<^verbatim>\<open>null\<close>; a pointer that is not nil writes the member
  with the encoding \<open>enc\<close> of what it points to.
\<close>

definition marshal_ptr_field ::
  "string \<Rightarrow> bool \<Rightarrow> ('a \<Rightarrow> json) \<Rightarrow> 'a option \<Rightarrow> (string \<times> json) list" where
  "marshal_ptr_field name omitempty enc ptr =
     (case ptr of
        None \<Rightarrow> (if omitempty then [] else [(name, JNull)])
      | Some x \<Rightarrow> [(name, enc x)])"




section \<open>Properties\<close>

subsection \<open>Auxiliary facts\<close>

lemma canon_keys:
  "CanonicalMIMEHeaderKey ''Content-Type'' = ''Content-Type''"
  "CanonicalMIMEHeaderKey ''Authorization'' = ''Authorization''"
  "CanonicalMIMEHeaderKey ''x-api-key'' = ''X-Api-Key''"
  "CanonicalMIMEHeaderKey ''anthropic-version'' = ''Anthropic-Version''"
  by (simp_all add: CanonicalMIMEHeaderKey_def validHeaderFieldByte_def toUpper_def toLower_def
      Let_def)

lemma setHeaders_Header:
  "Request_Header (setHeaders c req) =
     (Request_Header req)
       (''Content-Type'' \<mapsto> [''application/json''],
        (if vertexProjectID c \<noteq> '''' then ''Authorization'' else ''X-Api-Key'') \<mapsto>
          [if vertexProjectID c \<noteq> '''' then ''Bearer '' @ token c else token c],
        ''Anthropic-Version'' \<mapsto>
          [if anthropicVersion c \<noteq> '''' then anthropicVersion c
           else if vertexProjectID c \<noteq> '''' then ''vertex-2023-10-16'' else ''2023-06-01''])"
  by (simp add: setHeaders_def Header_Set_def canon_keys Let_def)

lemma setHeaders_URL: "Request_URL (setHeaders c req) = Request_URL req"
  by (simp add: setHeaders_def Let_def)

lemma setHeaders_drop_version:
  "drop_version (setHeaders (c\<lparr>anthropicVersion := v\<rparr>) req) = drop_version (setHeaders c req)"
  by (simp add: drop_version_def setHeaders_def Header_Set_def canon_keys Let_def)

lemma NewRequest_URL:
  "NewRequestWithContext P ctx m url pl = Inr req0 \<Longrightarrow> Request_URL req0 = url"
  by (auto simp add: NewRequestWithContext_def split: option.splits)

text \<open>The client a call of \<^verbatim>\<open>do\<close> leaves, whatever its outcome.\<close>

lemma do_client: "fst (snd (do P c sent ctx path pl)) = do_baseURL c"
  by (simp add: do_def Let_def split: sum.splits option.splits)

lemma do_baseURL_idem: "do_baseURL (do_baseURL c) = do_baseURL c"
  by (simp add: do_baseURL_def DefaultBaseURL_def)

lemma do_calls_client:
  "fst (do_calls P c sent calls) = (if calls = [] then c else do_baseURL c)"
proof (induction calls arbitrary: c sent)
  case Nil
  show ?case by simp
next
  case (Cons call calls)
  obtain ctx path pl where call: "call = (ctx, path, pl)"
    by (cases call) auto
  obtain r c' sent' where d: "do P c sent ctx path pl = (r, c', sent')"
    by (cases "do P c sent ctx path pl") auto
  have c': "c' = do_baseURL c"
    using do_client[of P c sent ctx path pl] d by simp
  show ?case
    using Cons.IH[of c' sent'] by (simp add: call d c' do_baseURL_idem)
qed

text \<open>The log a call of \<^verbatim>\<open>do\<close> leaves: at most one request more, with the URL computed.\<close>

lemma do_sent:
  "snd (snd (do P c sent ctx path pl)) = sent \<or>
   (\<exists>req0. NewRequestWithContext P ctx ''POST'' (do_url c path) pl = Inr req0 \<and>
      snd (snd (do P c sent ctx path pl)) = sent @ [setHeaders (do_baseURL c) req0])"
  by (auto simp add: do_def Let_def split: sum.splits option.splits)

lemma do_sent_urls:
  "map Request_URL (snd (snd (do P c sent ctx path pl)))
     \<in> {map Request_URL sent, map Request_URL sent @ [do_url c path]}"
  using do_sent[of P c sent ctx path pl]
  by (auto simp add: setHeaders_URL NewRequest_URL)

lemma do_baseURL_version:
  "do_baseURL (c\<lparr>anthropicVersion := v\<rparr>) = (do_baseURL c)\<lparr>anthropicVersion := v\<rparr>"
  by (simp add: do_baseURL_def)

lemma do_url_version: "do_url (c\<lparr>anthropicVersion := v\<rparr>) path = do_url c path"
  by (simp add: do_url_def do_baseURL_def)

lemma do_sent_version:
  "map drop_version (snd (snd (do P (c\<lparr>anthropicVersion := v\<rparr>) sent ctx path pl))) =
   map drop_version (snd (snd (do P c sent ctx path pl)))"
  by (simp add: do_def Let_def do_url_version do_baseURL_version setHeaders_drop_version
      split: sum.splits option.splits)

lemma New_direct_Client:
  "New ''sk-ant-key'' ''claude-3-haiku-20240307'' '''' [WithHTTPClient (Some ok_Doer)] =
     Inr direct_Client"
  by (simp add: New_def TrimSuffix_def WithHTTPClient_def direct_Client_def)

text \<open>The request builder: what the two validations return.\<close>

lemma handleTools_loop_nil:
  "\<exists>t \<in> set tools. llms_Tool_Function t = None \<Longrightarrow>
   handleTools_loop acc tools = Inl (errorString ''tool choice function is nil'')"
  by (induction tools arbitrary: acc) (auto split: option.splits)

lemma handleToolChoice_error:
  "handleToolChoice tc = Inl err \<Longrightarrow> err = errorString ''tool choice function is nil''"
  by (cases tc) (auto split: option.splits)


text \<open>The decoder on the example bodies.\<close>

lemmas scan_defs =
  checkValid_def scan_reset_def scan_eof_def scan_step_def quoted_def
  stateBeginValue_f_def stateBeginStringOrEmpty_f_def stateBeginString_f_def
  stateInString_f_def stateEndValue_f_def stateEndTop_f_def isSpace_def
  pushParseState_def popParseState_def continue_def deliver_def endLiteral_def
  unquote_def maxNestingDepth_def

lemmas store_defs =
  value_errorMessage_def value_Error_def store_string_def selects_def toUpper_def

lemma checkValid_rate_limit:
  "checkValid rate_limit_body =
     Some (JObject [(''error'', JObject [(''message'', JString ''rate limited''),
                                          (''type'', JString ''rate_limit_error'')])])"
  by (simp add: rate_limit_body_def scan_defs)

lemma Unmarshal_rate_limit:
  "Unmarshal rate_limit_body =
     Inr \<lparr>errorMessage_Error = \<lparr>Error_Message = ''rate limited'',
                                  Error_Type = ''rate_limit_error''\<rparr>\<rparr>"
  by (simp add: Unmarshal_def checkValid_rate_limit store_defs)

lemma checkValid_authentication:
  "checkValid authentication_body =
     Some (JObject [(''type'', JString ''error''),
                    (''error'', JObject [(''type'', JString ''authentication_error''),
                                          (''message'', JString ''invalid x-api-key'')])])"
  by (simp add: authentication_body_def scan_defs)

lemma Unmarshal_authentication:
  "Unmarshal authentication_body =
     Inr \<lparr>errorMessage_Error = \<lparr>Error_Message = ''invalid x-api-key'',
                                  Error_Type = ''authentication_error''\<rparr>\<rparr>"
  by (simp add: Unmarshal_def checkValid_authentication store_defs)

lemma checkValid_gateway: "checkValid gateway_body = None"
  by (simp add: gateway_body_def scan_defs)

lemma Sprintf_d_examples:
  "Sprintf_d 429 = ''429''" "Sprintf_d 401 = ''401''" "Sprintf_d 502 = ''502''"
  by (simp_all add: Sprintf_d_def)

text \<open>
  A body that is exactly the envelope, an object whose member \<^verbatim>\<open>error\<close> is an object with
  the string members \<^verbatim>\<open>message\<close> and \<^verbatim>\<open>type\<close>, unmarshals into those two strings.
\<close>

lemma Unmarshal_envelope:
  "checkValid data =
     Some (JObject [(''error'', JObject [(''message'', JString m), (''type'', JString t)])]) \<Longrightarrow>
   Unmarshal data = Inr \<lparr>errorMessage_Error = \<lparr>Error_Message = m, Error_Type = t\<rparr>\<rparr>"
  by (simp add: Unmarshal_def store_defs)

text \<open>
  What marshalling writes for a nil pointer rests on the tag: nothing with
  \<^verbatim>\<open>omitempty\<close>, the member with \<^verbatim>\<open>null\<close> without it.
\<close>

lemma marshal_ptr_field_nil:
  "marshal_ptr_field name True enc None = []"
  "marshal_ptr_field name False enc None = [(name, JNull)]"
  by (simp_all add: marshal_ptr_field_def)

subsection \<open>Properties of the specification\<close>

text \<open>
  C1, as the code has it. When the body of a response is read without error and unmarshals
  into the provider's error envelope, \<^verbatim>\<open>decodeError\<close> returns an \<^verbatim>\<open>LLMError\<close> whose
  \<^verbatim>\<open>Message\<close> is \<^verbatim>\<open>API returned unexpected status code: \<close> followed by the status code in
  decimal, a colon and a space, and the envelope's message; \<^verbatim>\<open>StatusCode\<close>,
  \<^verbatim>\<open>ErrorType\<close>, \<^verbatim>\<open>ErrorMessage\<close> and \<^verbatim>\<open>RawResponse\<close> are the status code, the
  envelope's type, the envelope's message and the body bytes. This holds for every status
  code, and in particular for a body that is literally the envelope with message \<open>m\<close> and
  type \<open>t\<close>.
\<close>

theorem decodeError_envelope:
  assumes "ReadAll (Response_Body resp) = (respBody, None)"
  shows "(Unmarshal respBody = Inr errResp \<longrightarrow>
            decodeError c resp =
              LLMError_ptr
                \<lparr>Message = ''API returned unexpected status code: '' @
                             Sprintf_d (Response_StatusCode resp) @ '': '' @
                             Error_Message (errorMessage_Error errResp),
                 ErrorMessage = Error_Message (errorMessage_Error errResp),
                 StatusCode = Response_StatusCode resp,
                 ErrorType = Error_Type (errorMessage_Error errResp),
                 RawResponse = respBody\<rparr>) \<and>
         (checkValid respBody =
            Some (JObject [(''error'', JObject [(''message'', JString m),
                                                 (''type'', JString t)])]) \<longrightarrow>
            decodeError c resp =
              LLMError_ptr
                \<lparr>Message = ''API returned unexpected status code: '' @
                             Sprintf_d (Response_StatusCode resp) @ '': '' @ m,
                 ErrorMessage = m,
                 StatusCode = Response_StatusCode resp,
                 ErrorType = t,
                 RawResponse = respBody\<rparr>)"
proof (intro conjI impI)
  assume "Unmarshal respBody = Inr errResp"
  then show "decodeError c resp =
      LLMError_ptr
        \<lparr>Message = ''API returned unexpected status code: '' @
                     Sprintf_d (Response_StatusCode resp) @ '': '' @
                     Error_Message (errorMessage_Error errResp),
         ErrorMessage = Error_Message (errorMessage_Error errResp),
         StatusCode = Response_StatusCode resp,
         ErrorType = Error_Type (errorMessage_Error errResp),
         RawResponse = respBody\<rparr>"
    using assms by (simp add: decodeError_def Let_def)
next
  assume "checkValid respBody =
      Some (JObject [(''error'', JObject [(''message'', JString m), (''type'', JString t)])])"
  then have "Unmarshal respBody =
      Inr \<lparr>errorMessage_Error = \<lparr>Error_Message = m, Error_Type = t\<rparr>\<rparr>"
    by (rule Unmarshal_envelope)
  then show "decodeError c resp =
      LLMError_ptr
        \<lparr>Message = ''API returned unexpected status code: '' @
                     Sprintf_d (Response_StatusCode resp) @ '': '' @ m,
         ErrorMessage = m,
         StatusCode = Response_StatusCode resp,
         ErrorType = t,
         RawResponse = respBody\<rparr>"
    using assms by (simp add: decodeError_def Let_def)
qed

text \<open>
  On a 401 response that carries the authentication envelope, and on a 429 response that
  carries the rate-limit envelope.
\<close>

theorem decodeError_envelope_witness:
  "ReadAll (authentication_body, None) = (authentication_body, None) \<and>
   Unmarshal authentication_body =
     Inr \<lparr>errorMessage_Error = \<lparr>Error_Message = ''invalid x-api-key'',
                                  Error_Type = ''authentication_error''\<rparr>\<rparr> \<and>
   decodeError direct_Client
       \<lparr>Response_StatusCode = 401, Response_Body = (authentication_body, None)\<rparr> =
     LLMError_ptr
       \<lparr>Message = ''API returned unexpected status code: 401: invalid x-api-key'',
        ErrorMessage = ''invalid x-api-key'',
        StatusCode = 401,
        ErrorType = ''authentication_error'',
        RawResponse = authentication_body\<rparr> \<and>
   checkValid rate_limit_body =
     Some (JObject [(''error'', JObject [(''message'', JString ''rate limited''),
                                          (''type'', JString ''rate_limit_error'')])]) \<and>
   decodeError direct_Client
       \<lparr>Response_StatusCode = 429, Response_Body = (rate_limit_body, None)\<rparr> =
     LLMError_ptr
       \<lparr>Message = ''API returned unexpected status code: 429: rate limited'',
        ErrorMessage = ''rate limited'',
        StatusCode = 429,
        ErrorType = ''rate_limit_error'',
        RawResponse = rate_limit_body\<rparr>"
proof -
  have r1: "ReadAll (Response_Body
              \<lparr>Response_StatusCode = 401, Response_Body = (authentication_body, None)\<rparr>) =
            (authentication_body, None)"
    by (simp add: ReadAll_def)
  have r2: "ReadAll (Response_Body
              \<lparr>Response_StatusCode = 429, Response_Body = (rate_limit_body, None)\<rparr>) =
            (rate_limit_body, None)"
    by (simp add: ReadAll_def)
  show ?thesis
    using decodeError_envelope[OF r1, of _ direct_Client]
          decodeError_envelope[OF r2, of _ direct_Client]
    by (simp add: ReadAll_def Unmarshal_authentication checkValid_rate_limit Sprintf_d_examples)
qed

text \<open>
  The message as the specification words it, \<^verbatim>\<open>unexpected status code: 401: invalid x-api-key\<close>, is not
  the one returned: the code's message starts with \<^verbatim>\<open>API returned\<close>.
\<close>

theorem decodeError_envelope_counterexample:
  "Unmarshal authentication_body =
     Inr \<lparr>errorMessage_Error = \<lparr>Error_Message = ''invalid x-api-key'',
                                  Error_Type = ''authentication_error''\<rparr>\<rparr> \<and>
   decodeError direct_Client
       \<lparr>Response_StatusCode = 401, Response_Body = (authentication_body, None)\<rparr> \<noteq>
     LLMError_ptr
       \<lparr>Message = ''unexpected status code: 401: invalid x-api-key'',
        ErrorMessage = ''invalid x-api-key'',
        StatusCode = 401,
        ErrorType = ''authentication_error'',
        RawResponse = authentication_body\<rparr>"
  by (simp add: decodeError_def Let_def ReadAll_def Unmarshal_authentication Sprintf_d_examples)

text \<open>
  C2, as the code has it. A sequence of calls to \<^verbatim>\<open>do\<close> leaves every field of the client
  as it was, except \<^verbatim>\<open>baseURL\<close> when the client has an empty \<^verbatim>\<open>vertexProjectID\<close> and an
  empty \<^verbatim>\<open>baseURL\<close>: then the first call stores \<^verbatim>\<open>DefaultBaseURL\<close> there. A client with
  a project identifier or a base URL is the same before and after any number of calls.
\<close>

theorem do_calls_client_fields:
  "fst (do_calls url_Parse c sent calls) =
     (if vertexProjectID c = '''' \<and> baseURL c = '''' \<and> calls \<noteq> []
      then c\<lparr>baseURL := DefaultBaseURL\<rparr> else c)"
  by (simp add: do_calls_client do_baseURL_def)

text \<open>On the Vertex client, which two calls leave as it was, and on the direct client.\<close>

theorem do_calls_client_fields_witness:
  "fst (do_calls accept_url vertex_Client []
          [(Some Background, ''/messages'', ''{}''), (Some TODO, ''/complete'', ''{}'')]) =
     vertex_Client \<and>
   fst (do_calls accept_url direct_Client [] [(Some Background, ''/messages'', ''{}'')]) =
     direct_Client\<lparr>baseURL := ''https://api.anthropic.com/v1''\<rparr>"
  using do_calls_client_fields[of accept_url vertex_Client "[]"
          "[(Some Background, ''/messages'', ''{}''), (Some TODO, ''/complete'', ''{}'')]"]
        do_calls_client_fields[of accept_url direct_Client "[]"
          "[(Some Background, ''/messages'', ''{}'')]"]
  by (simp add: vertex_Client_def direct_Client_def DefaultBaseURL_def)

text \<open>
  The client that \<^verbatim>\<open>New\<close> builds from an empty base URL is not the same after one call
  to \<^verbatim>\<open>do\<close>.
\<close>

theorem do_calls_client_fields_counterexample:
  "New ''sk-ant-key'' ''claude-3-haiku-20240307'' '''' [WithHTTPClient (Some ok_Doer)] =
     Inr direct_Client \<and>
   fst (do_calls accept_url direct_Client [] [(Some Background, ''/messages'', ''{}'')]) \<noteq>
     direct_Client"
  by (simp add: New_direct_Client do_def Let_def do_baseURL_def direct_Client_def
      DefaultBaseURL_def NewRequestWithContext_def accept_url_def ok_Doer_def do_url_def)

text \<open>
  C3. For a client with a non-empty \<^verbatim>\<open>vertexProjectID\<close>, the URL \<^verbatim>\<open>do\<close> computes is the
  Vertex predict URL built from location, project and model; a call adds at most one
  request to the transport's log, and that request has this URL; and the call with another
  path and another \<^verbatim>\<open>baseURL\<close> has the same outcome and sends the same requests.
\<close>

theorem do_vertex_url:
  assumes "vertexProjectID c \<noteq> ''''"
  shows "do_url c path =
           ''https://'' @ vertexLocation c @ ''-aiplatform.googleapis.com/v1/projects/'' @
           vertexProjectID c @ ''/locations/'' @ vertexLocation c @
           ''/publishers/anthropic/models/'' @ Model c @ '':streamRawPredict'' \<and>
         map Request_URL (snd (snd (do url_Parse c sent ctx path payloadBytes)))
           \<in> {map Request_URL sent, map Request_URL sent @ [do_url c path]} \<and>
         do url_Parse (c\<lparr>baseURL := b\<rparr>) sent ctx path' payloadBytes =
           (case do url_Parse c sent ctx path payloadBytes of
              (r, c', sent') \<Rightarrow> (r, c'\<lparr>baseURL := b\<rparr>, sent'))"
proof -
  have url: "do_url (c\<lparr>baseURL := b\<rparr>) path' = do_url c path"
    using assms by (simp add: do_url_def)
  have base: "do_baseURL c = c" "do_baseURL (c\<lparr>baseURL := b\<rparr>) = c\<lparr>baseURL := b\<rparr>"
    using assms by (simp_all add: do_baseURL_def)
  have hdr: "setHeaders (c\<lparr>baseURL := b\<rparr>) req = setHeaders c req" for req
    by (simp add: setHeaders_def Let_def)
  have "do_url c path =
           ''https://'' @ vertexLocation c @ ''-aiplatform.googleapis.com/v1/projects/'' @
           vertexProjectID c @ ''/locations/'' @ vertexLocation c @
           ''/publishers/anthropic/models/'' @ Model c @ '':streamRawPredict''"
    using assms by (simp add: do_url_def)
  moreover have "do url_Parse (c\<lparr>baseURL := b\<rparr>) sent ctx path' payloadBytes =
           (case do url_Parse c sent ctx path payloadBytes of
              (r, c', sent') \<Rightarrow> (r, c'\<lparr>baseURL := b\<rparr>, sent'))"
    by (simp add: do_def url base hdr Let_def split: sum.splits option.splits)
  ultimately show ?thesis
    using do_sent_urls by blast
qed

text \<open>On the Vertex client, with the paths of the two endpoints and a local base URL.\<close>

theorem do_vertex_url_witness:
  "vertexProjectID vertex_Client \<noteq> '''' \<and>
   do_url vertex_Client ''/messages'' =
     ''https://us-central1-aiplatform.googleapis.com/v1/projects/my-project/locations/us-central1/publishers/anthropic/models/claude-3-haiku@20240307:streamRawPredict'' \<and>
   map Request_URL
       (snd (snd (do accept_url vertex_Client [] (Some Background) ''/messages'' ''{}''))) =
     [''https://us-central1-aiplatform.googleapis.com/v1/projects/my-project/locations/us-central1/publishers/anthropic/models/claude-3-haiku@20240307:streamRawPredict''] \<and>
   do accept_url (vertex_Client\<lparr>baseURL := ''http://localhost:8080''\<rparr>) [] (Some Background)
       ''/complete'' ''{}'' =
     (case do accept_url vertex_Client [] (Some Background) ''/messages'' ''{}'' of
        (r, c', sent') \<Rightarrow> (r, c'\<lparr>baseURL := ''http://localhost:8080''\<rparr>, sent'))"
proof -
  have h: "vertexProjectID vertex_Client \<noteq> ''''"
    by (simp add: vertex_Client_def)
  have s: "map Request_URL
             (snd (snd (do accept_url vertex_Client [] (Some Background) ''/messages'' ''{}''))) =
           [do_url vertex_Client ''/messages'']"
    by (simp add: do_def Let_def NewRequestWithContext_def accept_url_def vertex_Client_def
        ok_Doer_def setHeaders_URL do_baseURL_def)
  show ?thesis
    using h s
      do_vertex_url[OF h, of "''/messages''" accept_url "[]" "Some Background" "''{}''"
        "''http://localhost:8080''" "''/complete''"]
    by (simp add: vertex_Client_def)
qed

text \<open>
  C4. \<^verbatim>\<open>setHeaders\<close> sets \<^verbatim>\<open>Content-Type\<close> to \<^verbatim>\<open>application/json\<close>; it sets
  \<^verbatim>\<open>Authorization\<close> to \<^verbatim>\<open>Bearer\<close> and the token when \<^verbatim>\<open>vertexProjectID\<close> is non-empty and
  \<^verbatim>\<open>x-api-key\<close> to the token otherwise; and it sets \<^verbatim>\<open>anthropic-version\<close> to the configured
  version when that is non-empty, otherwise to \<^verbatim>\<open>vertex-2023-10-16\<close> when
  \<^verbatim>\<open>vertexProjectID\<close> is non-empty, otherwise to \<^verbatim>\<open>2023-06-01\<close>.
\<close>

theorem setHeaders_policy:
  "Header_Get (Request_Header (setHeaders c req)) ''Content-Type'' = ''application/json'' \<and>
   (if vertexProjectID c \<noteq> ''''
    then Header_Get (Request_Header (setHeaders c req)) ''Authorization'' = ''Bearer '' @ token c
    else Header_Get (Request_Header (setHeaders c req)) ''x-api-key'' = token c) \<and>
   Header_Get (Request_Header (setHeaders c req)) ''anthropic-version'' =
     (if anthropicVersion c \<noteq> '''' then anthropicVersion c
      else if vertexProjectID c \<noteq> '''' then ''vertex-2023-10-16'' else ''2023-06-01'')"
  by (simp add: setHeaders_Header Header_Get_def canon_keys)

text \<open>On a fresh request, for the direct client and for the Vertex client.\<close>

theorem setHeaders_policy_witness:
  "Header_Get (Request_Header (setHeaders direct_Client post_Request)) ''Content-Type'' =
     ''application/json'' \<and>
   Header_Get (Request_Header (setHeaders direct_Client post_Request)) ''x-api-key'' =
     ''sk-ant-key'' \<and>
   Header_Get (Request_Header (setHeaders direct_Client post_Request)) ''anthropic-version'' =
     ''2023-06-01'' \<and>
   Header_Get (Request_Header (setHeaders vertex_Client post_Request)) ''Content-Type'' =
     ''application/json'' \<and>
   Header_Get (Request_Header (setHeaders vertex_Client post_Request)) ''Authorization'' =
     ''Bearer ya29.token'' \<and>
   Header_Get (Request_Header (setHeaders vertex_Client post_Request)) ''anthropic-version'' =
     ''vertex-2023-10-16'' \<and>
   Header_Get (Request_Header
       (setHeaders (vertex_Client\<lparr>anthropicVersion := ''2024-01-01''\<rparr>) post_Request))
       ''anthropic-version'' = ''2024-01-01''"
  using setHeaders_policy[of direct_Client post_Request]
        setHeaders_policy[of vertex_Client post_Request]
        setHeaders_policy[of "vertex_Client\<lparr>anthropicVersion := ''2024-01-01''\<rparr>" post_Request]
  by (simp add: direct_Client_def vertex_Client_def)
text \<open>
  C5. For the response with status 429 whose body is the rate-limit envelope,
  \<^verbatim>\<open>decodeError\<close> returns an \<^verbatim>\<open>LLMError\<close> with \<^verbatim>\<open>StatusCode\<close> 429, \<^verbatim>\<open>ErrorType\<close>
  \<^verbatim>\<open>rate_limit_error\<close>, \<^verbatim>\<open>ErrorMessage\<close> \<^verbatim>\<open>rate limited\<close> and \<^verbatim>\<open>RawResponse\<close> the body
  bytes as they came.
\<close>

theorem decodeError_rate_limit:
  "decodeError c \<lparr>Response_StatusCode = 429, Response_Body = (rate_limit_body, None)\<rparr> =
     LLMError_ptr
       \<lparr>Message = ''API returned unexpected status code: 429: rate limited'',
        ErrorMessage = ''rate limited'',
        StatusCode = 429,
        ErrorType = ''rate_limit_error'',
        RawResponse = rate_limit_body\<rparr>"
  by (simp add: decodeError_def Let_def ReadAll_def Unmarshal_rate_limit Sprintf_d_examples)

text \<open>
  C6, as the code has it. When the body of a response is read without error and is not a
  JSON text, \<^verbatim>\<open>decodeError\<close> returns a plain error, made by \<^verbatim>\<open>errors.New\<close>, whose text is
  \<^verbatim>\<open>API returned unexpected status code: \<close> followed by the status code in decimal; it
  carries no body bytes, no error type and no provider message.
\<close>

theorem decodeError_not_json:
  assumes "ReadAll (Response_Body resp) = (respBody, None)"
      and "checkValid respBody = None"
  shows "decodeError c resp =
           errorString (''API returned unexpected status code: '' @
                        Sprintf_d (Response_StatusCode resp))"
  using assms by (simp add: decodeError_def Let_def Unmarshal_def)

text \<open>On a 502 response that carries a gateway's HTML page.\<close>

theorem decodeError_not_json_witness:
  "ReadAll (gateway_body, None) = (gateway_body, None) \<and> checkValid gateway_body = None \<and>
   decodeError direct_Client
       \<lparr>Response_StatusCode = 502, Response_Body = (gateway_body, None)\<rparr> =
     errorString ''API returned unexpected status code: 502''"
proof -
  have r: "ReadAll (Response_Body
             \<lparr>Response_StatusCode = 502, Response_Body = (gateway_body, None)\<rparr>) =
           (gateway_body, None)"
    by (simp add: ReadAll_def)
  show ?thesis
    using decodeError_not_json[OF r checkValid_gateway, of direct_Client]
    by (simp add: ReadAll_def checkValid_gateway Sprintf_d_examples)
qed

text \<open>
  The text as the specification words it, \<^verbatim>\<open>unexpected status code: 502\<close>, is not the one returned: the
  code's text starts with \<^verbatim>\<open>API returned\<close>.
\<close>

theorem decodeError_not_json_counterexample:
  "checkValid gateway_body = None \<and>
   decodeError direct_Client
       \<lparr>Response_StatusCode = 502, Response_Body = (gateway_body, None)\<rparr> \<noteq>
     errorString ''unexpected status code: 502''"
  by (simp add: decodeError_def Let_def ReadAll_def Unmarshal_def checkValid_gateway
      Sprintf_d_examples)

text \<open>
  C7. When some entry of the request's \<^verbatim>\<open>Tools\<close> has a nil \<^verbatim>\<open>Function\<close>,
  \<^verbatim>\<open>CreateMessage\<close> returns the error \<^verbatim>\<open>tool choice function is nil\<close> and no result,
  whatever \<^verbatim>\<open>createMessage\<close> would do: the client and the transport's log are as they were,
  so the transport's \<^verbatim>\<open>Do\<close> was not called.
\<close>

theorem CreateMessage_nil_tool_function:
  assumes "\<exists>tool \<in> set (MessageRequest_Tools r). llms_Tool_Function tool = None"
  shows "CreateMessage createMessage c sent ctx r =
           (Failure (errorString ''tool choice function is nil''), c, sent)"
proof (cases "handleToolChoice (MessageRequest_ToolChoice r)")
  case (Inl err)
  then show ?thesis
    using handleToolChoice_error[OF Inl] by (simp add: CreateMessage_def)
next
  case (Inr toolChoice)
  then show ?thesis
    using handleTools_loop_nil[OF assms, of "[]"] by (simp add: CreateMessage_def handleTools_def)
qed

text \<open>
  On the example request with a second tool that has no function, and a \<^verbatim>\<open>createMessage\<close>
  that would post to the transport.
\<close>

theorem CreateMessage_nil_tool_function_witness:
  "(\<exists>tool \<in> set [weather_Tool, empty_Tool]. llms_Tool_Function tool = None) \<and>
   CreateMessage post_createMessage direct_Client [] (Some Background)
       (example_Request\<lparr>MessageRequest_Tools := [weather_Tool, empty_Tool]\<rparr>) =
     (Failure (errorString ''tool choice function is nil''), direct_Client, [])"
proof -
  have h: "\<exists>tool \<in> set (MessageRequest_Tools
             (example_Request\<lparr>MessageRequest_Tools := [weather_Tool, empty_Tool]\<rparr>)).
             llms_Tool_Function tool = None"
    by (simp add: empty_Tool_def)
  show ?thesis
    using h CreateMessage_nil_tool_function[OF h, of post_createMessage direct_Client "[]"
              "Some Background"]
    by simp
qed

text \<open>
  C8. For a tool-choice that is a tool value with a nil \<^verbatim>\<open>Function\<close>,
  \<^verbatim>\<open>handleToolChoice\<close> returns an error and \<^verbatim>\<open>CreateMessage\<close> fails with it, leaving the
  client and the transport's log as they were; for a string it returns a tool-choice whose
  \<^verbatim>\<open>Type\<close> is that string; and for a tool value with a function it returns a tool-choice
  with the tool's \<^verbatim>\<open>Type\<close> and the function's \<^verbatim>\<open>Name\<close>.
\<close>

theorem handleToolChoice_cases:
  "(llms_Tool_Function tool = None \<longrightarrow>
      handleToolChoice (any_Tool tool) = Inl (errorString ''tool choice function is nil'') \<and>
      CreateMessage createMessage c sent ctx (r\<lparr>MessageRequest_ToolChoice := any_Tool tool\<rparr>) =
        (Failure (errorString ''tool choice function is nil''), c, sent)) \<and>
   handleToolChoice (any_string s :: 's any) =
     Inr (Some \<lparr>ToolChoice_Type = s, ToolChoice_Name = ''''\<rparr>) \<and>
   (\<forall>f. llms_Tool_Function tool = Some f \<longrightarrow>
      handleToolChoice (any_Tool tool) =
        Inr (Some \<lparr>ToolChoice_Type = llms_Tool_Type tool,
                   ToolChoice_Name = FunctionDefinition_Name f\<rparr>))"
  by (simp add: CreateMessage_def)

text \<open>On the tool without a function, the string \<^verbatim>\<open>auto\<close> and the weather tool.\<close>

theorem handleToolChoice_cases_witness:
  "llms_Tool_Function empty_Tool = None \<and>
   handleToolChoice (any_Tool empty_Tool) = Inl (errorString ''tool choice function is nil'') \<and>
   CreateMessage post_createMessage direct_Client [] (Some Background)
       (example_Request\<lparr>MessageRequest_ToolChoice := any_Tool empty_Tool\<rparr>) =
     (Failure (errorString ''tool choice function is nil''), direct_Client, []) \<and>
   handleToolChoice (any_string ''auto'' :: string any) =
     Inr (Some \<lparr>ToolChoice_Type = ''auto'', ToolChoice_Name = ''''\<rparr>) \<and>
   llms_Tool_Function weather_Tool = Some weather_Function \<and>
   handleToolChoice (any_Tool weather_Tool) =
     Inr (Some \<lparr>ToolChoice_Type = ''function'', ToolChoice_Name = ''get_weather''\<rparr>)"
  using handleToolChoice_cases[of empty_Tool post_createMessage direct_Client "[]"
          "Some Background" example_Request "''auto''"]
        handleToolChoice_cases[of weather_Tool post_createMessage direct_Client "[]"
          "Some Background" example_Request "''auto''"]
  by (simp add: empty_Tool_def weather_Tool_def weather_Function_def)

text \<open>
  C9. Two clients that differ in \<^verbatim>\<open>anthropicVersion\<close> only give the same URL for the same
  path; the requests \<^verbatim>\<open>setHeaders\<close> produces for them from the same request differ at most
  in the header entry \<^verbatim>\<open>Anthropic-Version\<close>; and so do, one by one, the requests that
  \<^verbatim>\<open>do\<close> hands to the transport for the same path and payload.
\<close>

theorem anthropicVersion_frame:
  "do_url (c\<lparr>anthropicVersion := v\<rparr>) path = do_url c path \<and>
   drop_version (setHeaders (c\<lparr>anthropicVersion := v\<rparr>) req) = drop_version (setHeaders c req) \<and>
   map drop_version
       (snd (snd (do url_Parse (c\<lparr>anthropicVersion := v\<rparr>) sent ctx path payloadBytes))) =
     map drop_version (snd (snd (do url_Parse c sent ctx path payloadBytes)))"
  by (simp add: do_url_version setHeaders_drop_version do_sent_version)



end
